theory Spec2Isabelle
  imports Complex_Main
begin

section \<open>JavaScript values used by the pipeline\<close>

text \<open>
  Grid dimensions, coordinates and counts are JavaScript numbers that only ever hold
  integers; they are modelled as \<open>int\<close>. Where the source divides with \<open>/\<close> the
  quotient is taken in the reals, as JavaScript does, and \<open>Math.floor\<close> and
  \<open>Math.ceil\<close> are the real floor and ceiling. Strings are lists of 8-bit characters;
  every string the analyser, the generator and the validator build themselves is ASCII.
\<close>

text \<open>The remainder operator \<open>%\<close>: the result takes the sign of the dividend.
  It is only used with the divisors 2, 3 and 4.\<close>

definition js_rem :: "int \<Rightarrow> int \<Rightarrow> int" where
  "js_rem a b = sgn a * (\<bar>a\<bar> mod \<bar>b\<bar>)"

definition digit_char :: "nat \<Rightarrow> char" where
  "digit_char d = ''0123456789'' ! d"

fun nat_toString :: "nat \<Rightarrow> string" where
  "nat_toString n =
     (if n < 10 then [digit_char n] else nat_toString (n div 10) @ [digit_char (n mod 10)])"

declare nat_toString.simps [simp del]

text \<open>\<open>Number.prototype.toString\<close> (and template interpolation) on an integer.\<close>

definition number_toString :: "int \<Rightarrow> string" where
  "number_toString i =
     (if i < 0 then CHR ''-'' # nat_toString (nat (- i)) else nat_toString (nat i))"

text \<open>\<open>Array.prototype.join\<close>.\<close>

fun join :: "string \<Rightarrow> string list \<Rightarrow> string" where
  "join sep [] = []"
| "join sep [x] = x"
| "join sep (x # y # ys) = x @ sep @ join sep (y # ys)"

text \<open>\<open>String.prototype.includes\<close> with a one-character needle.\<close>

definition str_includes :: "string \<Rightarrow> char \<Rightarrow> bool" where
  "str_includes s ch = (ch \<in> set s)"

text \<open>Reading a decimal literal back; used to state that \<open>number_toString\<close> is decimal.\<close>

definition digit_value :: "char \<Rightarrow> nat option" where
  "digit_value ch =
     (if 48 \<le> (of_char ch :: nat) \<and> (of_char ch :: nat) \<le> 57
      then Some (of_char ch - 48) else None)"

fun read_digits :: "nat \<Rightarrow> string \<Rightarrow> nat option" where
  "read_digits acc [] = Some acc"
| "read_digits acc (ch # rest) =
     (case digit_value ch of None \<Rightarrow> None | Some d \<Rightarrow> read_digits (10 * acc + d) rest)"

definition read_decimal :: "string \<Rightarrow> nat option" where
  "read_decimal s = (if s = [] then None else read_digits 0 s)"

section \<open>Core types (core/types.ts)\<close>

text \<open>A cell's \<open>timestamp\<close> is written from the clock and never read; it is left out.\<close>

record Cell =
  char :: "string option"
  strokeId :: int

record GridCoord =
  row :: int
  col :: int

text \<open>\<open>PredicateType\<close> is a union of string literals; at run time the field holds the
  string itself.\<close>

record Predicate =
  type :: string
  char :: string
  expression :: string
  params :: "string list"
  isScalable :: bool
  confidence :: real

record AnalysisResult =
  predicates :: "Predicate list"
  warnings :: "string list"
  isFullyParametric :: bool

text \<open>A \<open>Map\<close> keeps its entries in insertion order: an association list.\<close>

record GeneratedCode =
  code :: string
  params :: "(string \<times> int) list"
  warnings :: "string list"
  isScalable :: bool

record Difference =
  row :: nat
  col :: nat
  expected :: string
  actual :: string

record ValidationResult =
  valid :: bool
  differences :: "Difference list"

text \<open>The only fault the analyser can raise: reading a property of \<open>undefined\<close>.\<close>

datatype error = TypeError

section \<open>PatternAnalyzer\<close>

text \<open>The key under which a coordinate is stored in a \<open>Set\<close> of strings.\<close>

definition coord_key :: "int \<Rightarrow> int \<Rightarrow> string" where
  "coord_key r c = number_toString r @ '','' @ number_toString c"

text \<open>A JavaScript \<open>Set\<close> of strings: its elements in insertion order, each once.\<close>

definition Set_add :: "string \<Rightarrow> string list \<Rightarrow> string list" where
  "Set_add k s = (if k \<in> set s then s else s @ [k])"

definition Set_of :: "string list \<Rightarrow> string list" where
  "Set_of ks = fold Set_add ks []"

definition Set_has :: "string list \<Rightarrow> string \<Rightarrow> bool" where
  "Set_has s k = (k \<in> set s)"

definition cell_keys :: "GridCoord list \<Rightarrow> string list" where
  "cell_keys cells = Set_of (map (\<lambda>c. coord_key (GridCoord.row c) (GridCoord.col c)) cells)"

definition parameterizeValue :: "int \<Rightarrow> int \<Rightarrow> string \<Rightarrow> string" where
  "parameterizeValue v dimension dimName =
     (if v = 0 then ''0''
      else if v = dimension then dimName
      else if v = dimension - 1 then dimName @ ''-1''
      else if v = \<lfloor>real_of_int dimension / 2\<rfloor> then dimName @ ''/2''
      else if v = dimension - 2 then dimName @ ''-2''
      else if js_rem dimension 4 = 0 \<and> real_of_int v = real_of_int dimension / 4
        then dimName @ ''/4''
      else if js_rem dimension 3 = 0 \<and> real_of_int v = real_of_int dimension / 3
        then dimName @ ''/3''
      else number_toString v)"

definition tryFill :: "int \<Rightarrow> int \<Rightarrow> GridCoord list \<Rightarrow> string \<Rightarrow> Predicate option" where
  "tryFill H W cells ch =
     (if int (length cells) \<noteq> H * W then None
      else Some \<lparr>type = ''filled_rect'', Predicate.char = ch, expression = ''true'',
                 Predicate.params = [''H'', ''W''], Predicate.isScalable = True, confidence = 1\<rparr>)"

definition borderKeys :: "int \<Rightarrow> int \<Rightarrow> string list" where
  "borderKeys H W =
     (let top = fold (\<lambda>c s. Set_add (coord_key (H - 1) c) (Set_add (coord_key 0 c) s))
                  [0 .. W - 1] []
      in fold (\<lambda>r s. Set_add (coord_key r (W - 1)) (Set_add (coord_key r 0) s))
           [1 .. H - 2] top)"

definition tryBorder :: "int \<Rightarrow> int \<Rightarrow> GridCoord list \<Rightarrow> string \<Rightarrow> Predicate option" where
  "tryBorder H W cells ch =
     (let cellSet = cell_keys cells; expectedBorder = borderKeys H W
      in if length cellSet \<noteq> length expectedBorder then None
         else if \<not> list_all (Set_has cellSet) expectedBorder then None
         else Some \<lparr>type = ''border'', Predicate.char = ch,
                    expression = ''r == 0 || r == H-1 || c == 0 || c == W-1'',
                    Predicate.params = [''H'', ''W''], Predicate.isScalable = True, confidence = 1\<rparr>)"

definition tryDiagonal :: "int \<Rightarrow> int \<Rightarrow> GridCoord list \<Rightarrow> string \<Rightarrow> Predicate option" where
  "tryDiagonal H W cells ch =
     (let minDim = min H W
      in if int (length cells) \<noteq> minDim then None
         else if \<not> list_all (\<lambda>cell. GridCoord.row cell = GridCoord.col cell) cells then None
         else Some \<lparr>type = ''diagonal'', Predicate.char = ch, expression = ''r == c'',
                    Predicate.params = [''H'', ''W''], Predicate.isScalable = True, confidence = 1\<rparr>)"

definition tryAntiDiagonal :: "int \<Rightarrow> int \<Rightarrow> GridCoord list \<Rightarrow> string \<Rightarrow> Predicate option" where
  "tryAntiDiagonal H W cells ch =
     (let minDim = min H W
      in if int (length cells) \<noteq> minDim then None
         else let target = minDim - 1
           in if \<not> list_all (\<lambda>cell. GridCoord.row cell + GridCoord.col cell = target) cells then None
              else Some \<lparr>type = ''anti_diagonal'', Predicate.char = ch,
                         expression = (if H \<le> W then ''r + c == H - 1 && c < H''
                                       else ''r + c == W - 1 && r < W''),
                         Predicate.params = [''H'', ''W''], Predicate.isScalable = True, confidence = 1\<rparr>)"

text \<open>\<open>cells[0].row\<close> on an empty array is a TypeError; the length guard before it lets
  an empty array through only when \<open>W\<close> is 0.\<close>

definition tryHorizontalLine ::
  "int \<Rightarrow> int \<Rightarrow> GridCoord list \<Rightarrow> string \<Rightarrow> error + Predicate option" where
  "tryHorizontalLine H W cells ch =
     (if int (length cells) \<noteq> W then Inr None
      else case cells of
        [] \<Rightarrow> Inl TypeError
      | c0 # _ \<Rightarrow>
          if \<not> list_all (\<lambda>cell. GridCoord.row cell = GridCoord.row c0) cells then Inr None
          else let param = parameterizeValue (GridCoord.row c0) H ''H''
            in Inr (Some \<lparr>type = ''horizontal_line'', Predicate.char = ch,
                      expression = ''r == '' @ param,
                      Predicate.params = (if str_includes param CHR ''H'' then [''H'', ''W''] else [''W'']),
                      Predicate.isScalable = str_includes param CHR ''H'',
                      confidence = (if str_includes param CHR ''H'' then 1 else 0.5)\<rparr>))"

definition tryVerticalLine ::
  "int \<Rightarrow> int \<Rightarrow> GridCoord list \<Rightarrow> string \<Rightarrow> error + Predicate option" where
  "tryVerticalLine H W cells ch =
     (if int (length cells) \<noteq> H then Inr None
      else case cells of
        [] \<Rightarrow> Inl TypeError
      | c0 # _ \<Rightarrow>
          if \<not> list_all (\<lambda>cell. GridCoord.col cell = GridCoord.col c0) cells then Inr None
          else let param = parameterizeValue (GridCoord.col c0) W ''W''
            in Inr (Some \<lparr>type = ''vertical_line'', Predicate.char = ch,
                      expression = ''c == '' @ param,
                      Predicate.params = (if str_includes param CHR ''W'' then [''H'', ''W''] else [''H'']),
                      Predicate.isScalable = str_includes param CHR ''W'',
                      confidence = (if str_includes param CHR ''W'' then 1 else 0.5)\<rparr>))"

text \<open>The bounding box starts from \<open>Infinity\<close> and \<open>-Infinity\<close>, the units of
  \<open>Math.min\<close> and \<open>Math.max\<close>; on the non-empty array that reaches the loop this is
  the fold started at the first cell.\<close>

definition tryFilledRectangle ::
  "int \<Rightarrow> int \<Rightarrow> GridCoord list \<Rightarrow> string \<Rightarrow> Predicate option" where
  "tryFilledRectangle H W cells ch =
     (case cells of
        [] \<Rightarrow> None
      | c0 # rest \<Rightarrow>
          let minR = fold (\<lambda>cell m. min m (GridCoord.row cell)) rest (GridCoord.row c0);
              maxR = fold (\<lambda>cell m. max m (GridCoord.row cell)) rest (GridCoord.row c0);
              minC = fold (\<lambda>cell m. min m (GridCoord.col cell)) rest (GridCoord.col c0);
              maxC = fold (\<lambda>cell m. max m (GridCoord.col cell)) rest (GridCoord.col c0);
              expectedCount = (maxR - minR + 1) * (maxC - minC + 1)
          in if int (length cells) \<noteq> expectedCount then None
             else let cellSet = cell_keys cells
               in if \<not> list_all (\<lambda>r. list_all (\<lambda>c. Set_has cellSet (coord_key r c))
                                         [minC .. maxC]) [minR .. maxR]
                  then None
                  else let r1 = parameterizeValue minR H ''H'';
                           r2 = parameterizeValue (maxR + 1) H ''H'';
                           c1 = parameterizeValue minC W ''W'';
                           c2 = parameterizeValue (maxC + 1) W ''W'';
                           scalable = (str_includes r1 CHR ''H'' \<or> str_includes r2 CHR ''H'' \<or>
                                       str_includes c1 CHR ''W'' \<or> str_includes c2 CHR ''W'')
                    in Some \<lparr>type = ''filled_rect'', Predicate.char = ch,
                              expression = ''r >= '' @ r1 @ '' && r < '' @ r2 @
                                           '' && c >= '' @ c1 @ '' && c < '' @ c2,
                              Predicate.params = [''H'', ''W''], Predicate.isScalable = scalable,
                              confidence = (if scalable then 1 else 0.7)\<rparr>)"

definition tryCheckerboard ::
  "int \<Rightarrow> int \<Rightarrow> GridCoord list \<Rightarrow> string \<Rightarrow> Predicate option" where
  "tryCheckerboard H W cells ch =
     (let expectedCount = \<lceil>real_of_int (H * W) / 2\<rceil>
      in if \<bar>int (length cells) - expectedCount\<bar> > 1 then None
         else let evenCount = length (filter (\<lambda>cell. js_rem (GridCoord.row cell + GridCoord.col cell) 2 = 0) cells);
                  oddCount = length (filter (\<lambda>cell. js_rem (GridCoord.row cell + GridCoord.col cell) 2 \<noteq> 0) cells)
           in if evenCount = length cells
              then Some \<lparr>type = ''checkerboard'', Predicate.char = ch,
                         expression = ''(r + c) % 2 == 0'',
                         Predicate.params = [''H'', ''W''], Predicate.isScalable = True, confidence = 1\<rparr>
              else if oddCount = length cells
              then Some \<lparr>type = ''checkerboard'', Predicate.char = ch,
                         expression = ''(r + c) % 2 == 1'',
                         Predicate.params = [''H'', ''W''], Predicate.isScalable = True, confidence = 1\<rparr>
              else None)"

text \<open>\<open>char.charCodeAt(0)\<close> is \<open>NaN\<close> on the empty string.\<close>

definition charCodeAt0 :: "string \<Rightarrow> string" where
  "charCodeAt0 ch = (case ch of [] \<Rightarrow> ''NaN'' | x # _ \<Rightarrow> nat_toString (of_char x))"

definition fallbackCoordinateSet :: "GridCoord list \<Rightarrow> string \<Rightarrow> Predicate" where
  "fallbackCoordinateSet cells ch =
     \<lparr>type = ''coordinate_set'', Predicate.char = ch,
      expression = ''occupied_'' @ charCodeAt0 ch @ ''.count({r, c})'',
      Predicate.params = [], Predicate.isScalable = False, confidence = 0\<rparr>"

text \<open>The detector closures, in priority order, and the loop that returns the first
  non-null result.\<close>

definition detectors ::
  "int \<Rightarrow> int \<Rightarrow> GridCoord list \<Rightarrow> string \<Rightarrow> (unit \<Rightarrow> error + Predicate option) list" where
  "detectors H W cells ch =
     [\<lambda>_. Inr (tryFill H W cells ch),
      \<lambda>_. Inr (tryBorder H W cells ch),
      \<lambda>_. Inr (tryDiagonal H W cells ch),
      \<lambda>_. Inr (tryAntiDiagonal H W cells ch),
      \<lambda>_. tryHorizontalLine H W cells ch,
      \<lambda>_. tryVerticalLine H W cells ch,
      \<lambda>_. Inr (tryFilledRectangle H W cells ch),
      \<lambda>_. Inr (tryCheckerboard H W cells ch)]"

fun first_result :: "(unit \<Rightarrow> error + Predicate option) list \<Rightarrow> error + Predicate option" where
  "first_result [] = Inr None"
| "first_result (detector # ds) =
     (case detector () of
        Inl e \<Rightarrow> Inl e
      | Inr (Some p) \<Rightarrow> Inr (Some p)
      | Inr None \<Rightarrow> first_result ds)"

definition discoverPredicate ::
  "int \<Rightarrow> int \<Rightarrow> GridCoord list \<Rightarrow> string \<Rightarrow> error + Predicate" where
  "discoverPredicate H W cells ch =
     (case first_result (detectors H W cells ch) of
        Inl e \<Rightarrow> Inl e
      | Inr (Some p) \<Rightarrow> Inr p
      | Inr None \<Rightarrow> Inr (fallbackCoordinateSet cells ch))"

section \<open>CodeGenerator\<close>

abbreviation NL :: char where
  "NL \<equiv> CHR 0x0A"

text \<open>The warning sign U+26A0 that opens the generator's warning, as its UTF-8 bytes.\<close>

definition warning_sign :: string where
  "warning_sign = [CHR 0xE2, CHR 0x9A, CHR 0xA0]"

text \<open>\<open>Map.prototype.get\<close> on an insertion-ordered map.\<close>

definition Map_get :: "('k \<times> 'v) list \<Rightarrow> 'k \<Rightarrow> 'v option" where
  "Map_get m k = map_of m k"

text \<open>The body of the loops that fill a \<open>Map\<close> of arrays: create the entry at the end
  of the map when the key is new, then push onto the key's array.\<close>

fun Map_push :: "'k \<Rightarrow> 'v \<Rightarrow> ('k \<times> 'v list) list \<Rightarrow> ('k \<times> 'v list) list" where
  "Map_push k v [] = [(k, [v])]"
| "Map_push k v ((k', vs) # m) =
     (if k' = k then (k', vs @ [v]) # m else (k', vs) # Map_push k v m)"

definition coordinate_term :: "GridCoord \<Rightarrow> string" where
  "coordinate_term c =
     ''(r=='' @ number_toString (GridCoord.row c) @ '' && c=='' @
     number_toString (GridCoord.col c) @ '')''"

definition line_break :: string where
  "line_break = '' ||'' @ [NL] @ ''                ''"

definition byRow_of :: "GridCoord list \<Rightarrow> (int \<times> int list) list" where
  "byRow_of cells = fold (\<lambda>cell m. Map_push (GridCoord.row cell) (GridCoord.col cell) m) cells []"

definition row_condition :: "int \<times> int list \<Rightarrow> string" where
  "row_condition entry =
     (case entry of (r, cols) \<Rightarrow>
        (case cols of
           [c0] \<Rightarrow> ''(r=='' @ number_toString r @ '' && c=='' @ number_toString c0 @ '')''
         | _ \<Rightarrow> ''(r=='' @ number_toString r @ '' && ('' @
                join '' || '' (map (\<lambda>c. ''c=='' @ number_toString c) cols) @ ''))''))"

definition generateGroupedCondition :: "GridCoord list \<Rightarrow> string" where
  "generateGroupedCondition cells = join line_break (map row_condition (byRow_of cells))"

definition generateCoordinateCondition :: "GridCoord list \<Rightarrow> string" where
  "generateCoordinateCondition cells =
     (if length cells = 0 then ''false''
      else if length cells > 20 then generateGroupedCondition cells
      else let conditions = map coordinate_term cells
        in if length conditions \<le> 5 then join '' || '' conditions
           else join line_break conditions)"

definition predicateToCondition ::
  "(string \<times> GridCoord list) list \<Rightarrow> Predicate \<Rightarrow> string" where
  "predicateToCondition cellsByChar pred =
     (if type pred = ''coordinate_set''
      then generateCoordinateCondition
             (case Map_get cellsByChar (Predicate.char pred) of None \<Rightarrow> [] | Some cells \<Rightarrow> cells)
      else expression pred)"

definition charToLiteral :: "string \<Rightarrow> string" where
  "charToLiteral ch =
     (if ch = [CHR 0x5C] then [CHR 0x27, CHR 0x5C, CHR 0x5C, CHR 0x27]
      else if ch = [CHR 0x27] then [CHR 0x27, CHR 0x5C, CHR 0x27, CHR 0x27]
      else if ch = [NL] then [CHR 0x27, CHR 0x5C, CHR ''n'', CHR 0x27]
      else if ch = [CHR 0x09] then [CHR 0x27, CHR 0x5C, CHR ''t'', CHR 0x27]
      else [CHR 0x27] @ ch @ [CHR 0x27])"

text \<open>The two lines pushed for the predicate at index \<open>i\<close>.\<close>

definition branch_lines ::
  "(string \<times> GridCoord list) list \<Rightarrow> nat \<Rightarrow> Predicate \<Rightarrow> string list" where
  "branch_lines cellsByChar i pred =
     (let condition = predicateToCondition cellsByChar pred;
          charLiteral = charToLiteral (Predicate.char pred)
      in [(if i = 0 then ''            if ('' @ condition @ '') {''
           else ''            } else if ('' @ condition @ '') {''),
          ''                cout << '' @ charLiteral @ '';''])"

definition generateConditions ::
  "Predicate list \<Rightarrow> (string \<times> GridCoord list) list \<Rightarrow> string" where
  "generateConditions preds cellsByChar =
     (if length preds = 0 then ''            cout << '' @ [CHR 0x27, CHR '' '', CHR 0x27] @ '';''
      else join [NL]
        (concat (map (\<lambda>i. branch_lines cellsByChar i (preds ! i)) [0 ..< length preds]) @
         [''            } else {'',
          ''                cout << '' @ [CHR 0x27, CHR '' '', CHR 0x27] @ '';'',
          ''            }'']))"

definition buildCode ::
  "Predicate list \<Rightarrow> int \<Rightarrow> int \<Rightarrow> (string \<times> GridCoord list) list \<Rightarrow> string" where
  "buildCode preds H W cellsByChar =
     join [NL]
       [''#include <iostream>'',
        ''using namespace std;'',
        [],
        ''int main() {'',
        ''    int H = '' @ number_toString H @ '';  // Height - change to scale'',
        ''    int W = '' @ number_toString W @ '';  // Width - change to scale'',
        [],
        ''    for (int r = 0; r < H; r++) {'',
        ''        for (int c = 0; c < W; c++) {'',
        generateConditions preds cellsByChar,
        ''        }'',
        ''        cout << endl;'',
        ''    }'',
        [],
        ''    return 0;'',
        ''}'']"

definition generate ::
  "Predicate list \<Rightarrow> int \<Rightarrow> int \<Rightarrow> (string \<times> GridCoord list) list \<Rightarrow> GeneratedCode" where
  "generate preds H W cellsByChar =
     (let hasCoordinateSets = list_ex (\<lambda>p. type p = ''coordinate_set'') preds;
          scalable = \<not> hasCoordinateSets
      in \<lparr>code = buildCode preds H W cellsByChar,
          GeneratedCode.params = [(''H'', H), (''W'', W)],
          GeneratedCode.warnings =
            (if hasCoordinateSets
             then [warning_sign @ '' Contains fixed coordinates - will not scale with H/W changes.'']
             else []),
          GeneratedCode.isScalable = scalable\<rparr>)"

section \<open>Grid\<close>

record Grid =
  rows :: nat
  cols :: nat
  cells :: "Cell list list"

definition createEmptyGrid :: "nat \<Rightarrow> nat \<Rightarrow> Cell list list" where
  "createEmptyGrid n m = replicate n (replicate m \<lparr>Cell.char = None, strokeId = - 1\<rparr>)"

definition new_Grid :: "nat \<Rightarrow> nat \<Rightarrow> Grid" where
  "new_Grid n m = \<lparr>rows = n, cols = m, cells = createEmptyGrid n m\<rparr>"

text \<open>Every grid is made by the constructor and changed by \<open>setCell\<close> only, so its
  array has \<open>rows\<close> rows of \<open>cols\<close> cells and the loops below read inside it.\<close>

definition grid_ok :: "Grid \<Rightarrow> bool" where
  "grid_ok g = (length (cells g) = rows g \<and> list_all (\<lambda>line. length line = cols g) (cells g))"

definition isValidCoord :: "Grid \<Rightarrow> int \<Rightarrow> int \<Rightarrow> bool" where
  "isValidCoord g r c = (r \<ge> 0 \<and> r < int (rows g) \<and> c \<ge> 0 \<and> c < int (cols g))"

definition setCell :: "Grid \<Rightarrow> int \<Rightarrow> int \<Rightarrow> string option \<Rightarrow> int \<Rightarrow> Grid \<times> bool" where
  "setCell g r c ch sid =
     (if \<not> isValidCoord g r c then (g, False)
      else let cell = cells g ! nat r ! nat c
        in if ch = None \<or> sid \<ge> strokeId cell
           then (g\<lparr>cells := (cells g)[nat r := (cells g ! nat r)[nat c :=
                     \<lparr>Cell.char = ch, strokeId = sid\<rparr>]]\<rparr>, True)
           else (g, False))"

definition getCellsByChar :: "Grid \<Rightarrow> (string \<times> GridCoord list) list" where
  "getCellsByChar g =
     fold (\<lambda>r byChar.
        fold (\<lambda>c byChar.
           case Cell.char (cells g ! r ! c) of
             None \<Rightarrow> byChar
           | Some ch \<Rightarrow> Map_push ch \<lparr>GridCoord.row = int r, GridCoord.col = int c\<rparr> byChar)
          [0 ..< cols g] byChar)
       [0 ..< rows g] []"

definition toString :: "Grid \<Rightarrow> string" where
  "toString g =
     join [NL]
       (map (\<lambda>r. concat (map (\<lambda>c. case Cell.char (cells g ! r ! c) of
                                      None \<Rightarrow> '' '' | Some ch \<Rightarrow> ch)
                             [0 ..< cols g]))
          [0 ..< rows g])"

section \<open>PatternAnalyzer.analyze\<close>

text \<open>One turn of the loop over the grouped cells: the state is the predicates, the
  warnings and the flag; a fault of the discovery ends the loop.\<close>

definition analyze_step ::
  "int \<Rightarrow> int \<Rightarrow> string \<times> GridCoord list \<Rightarrow> error + AnalysisResult \<Rightarrow> error + AnalysisResult" where
  "analyze_step H W entry acc =
     (case acc of
        Inl e \<Rightarrow> Inl e
      | Inr res \<Rightarrow>
          (case entry of (ch, cs) \<Rightarrow>
             (case discoverPredicate H W cs ch of
                Inl e \<Rightarrow> Inl e
              | Inr predicate \<Rightarrow>
                  if \<not> Predicate.isScalable predicate
                  then Inr \<lparr>predicates = predicates res @ [predicate],
                            AnalysisResult.warnings = AnalysisResult.warnings res @
                              [''Character '' @ [CHR 0x27] @ ch @ [CHR 0x27] @
                               '': Pattern could not be parameterized. '' @
                               ''Using coordinate set ('' @
                               number_toString (int (length cs)) @ '' points).''],
                            isFullyParametric = False\<rparr>
                  else Inr (res\<lparr>predicates := predicates res @ [predicate]\<rparr>))))"

definition analyze :: "Grid \<Rightarrow> error + AnalysisResult" where
  "analyze g =
     (case fold (analyze_step (int (rows g)) (int (cols g))) (getCellsByChar g)
             (Inr \<lparr>predicates = [], AnalysisResult.warnings = [], isFullyParametric = True\<rparr>) of
        Inl e \<Rightarrow> Inl e
      | Inr res \<Rightarrow>
          if \<not> isFullyParametric res
          then Inr (res\<lparr>AnalysisResult.warnings := AnalysisResult.warnings res @
                 [[NL] @ warning_sign @ '' WARNING: Some patterns use coordinate sets.'' @ [NL] @
                  ''Changing H or W will NOT scale these patterns proportionally.'']\<rparr>)
          else Inr res)"

section \<open>OutputValidator\<close>

text \<open>\<open>String.prototype.trimEnd\<close> removes every trailing white-space and line-terminator
  character; among 8-bit characters these are tab, line feed, vertical tab, form feed,
  carriage return, space and no-break space.\<close>

definition is_js_whitespace :: "char \<Rightarrow> bool" where
  "is_js_whitespace ch =
     (ch = CHR 0x09 \<or> ch = CHR 0x0A \<or> ch = CHR 0x0B \<or> ch = CHR 0x0C \<or> ch = CHR 0x0D \<or>
      ch = CHR 0x20 \<or> ch = CHR 0xA0)"

definition trimEnd :: "string \<Rightarrow> string" where
  "trimEnd s = rev (dropWhile is_js_whitespace (rev s))"

text \<open>\<open>s.split('\n')\<close>: always at least one line.\<close>

fun split_from :: "string \<Rightarrow> string \<Rightarrow> string list" where
  "split_from cur [] = [cur]"
| "split_from cur (ch # rest) =
     (if ch = NL then cur # split_from [] rest else split_from (cur @ [ch]) rest)"

definition split_lines :: "string \<Rightarrow> string list" where
  "split_lines s = split_from [] s"

text \<open>\<open>xs[i] ?? d\<close>: the element, or the default past the end.\<close>

definition nth_or :: "'a list \<Rightarrow> nat \<Rightarrow> 'a \<Rightarrow> 'a" where
  "nth_or xs i d = (if i < length xs then xs ! i else d)"

definition formatChar :: "char \<Rightarrow> string" where
  "formatChar ch =
     (if ch = CHR '' '' then ''(space)''
      else if ch = CHR 0x09 then ''(tab)''
      else if ch = NL then ''(newline)''
      else [CHR 0x27, ch, CHR 0x27])"

definition computeDiff :: "string \<Rightarrow> string \<Rightarrow> Difference list" where
  "computeDiff expectedText actualText =
     (let expectedLines = split_lines expectedText;
          actualLines = split_lines actualText;
          maxRows = max (length expectedLines) (length actualLines)
      in concat (map (\<lambda>r.
           let expLine = nth_or expectedLines r [];
               actLine = nth_or actualLines r [];
               maxCols = max (length expLine) (length actLine)
           in concat (map (\<lambda>c.
                let expChar = nth_or expLine c CHR '' '';
                    actChar = nth_or actLine c CHR '' ''
                in if expChar \<noteq> actChar
                   then [\<lparr>Difference.row = r, Difference.col = c,
                          expected = formatChar expChar, actual = formatChar actChar\<rparr>]
                   else []) [0 ..< maxCols])) [0 ..< maxRows]))"

definition validate :: "Grid \<Rightarrow> string \<Rightarrow> ValidationResult" where
  "validate g programOutput =
     (let expectedText = toString g;
          actualText = trimEnd programOutput
      in if expectedText = actualText then \<lparr>valid = True, differences = []\<rparr>
         else \<lparr>valid = False, differences = computeDiff expectedText actualText\<rparr>)"

section \<open>Running the emitted program\<close>

text \<open>
  The generator emits C++ text for an external compiler. What follows is the meaning of
  the fragment it emits: conditions over the \<open>int\<close> variables \<open>r\<close>, \<open>c\<close>, \<open>H\<close> and
  \<open>W\<close>, built from decimal literals, \<open>true\<close> and \<open>false\<close>, parentheses and the binary
  operators below with their C++ precedences, all left-associative; \<open>/\<close> and \<open>%\<close>
  truncate towards zero, comparisons yield 0 or 1, \<open>&&\<close> and \<open>||\<close> evaluate their
  right operand only when needed. A text outside the fragment, or a division by zero,
  has no value.
\<close>

datatype token = NUM nat | ID string | OP string | LPAR | RPAR

datatype pending = NoToken | InNumber nat | InName string

definition flush :: "pending \<Rightarrow> token list" where
  "flush p = (case p of NoToken \<Rightarrow> [] | InNumber n \<Rightarrow> [NUM n] | InName s \<Rightarrow> [ID s])"

definition is_letter :: "char \<Rightarrow> bool" where
  "is_letter ch =
     (let k = (of_char ch :: nat) in (65 \<le> k \<and> k \<le> 90) \<or> (97 \<le> k \<and> k \<le> 122) \<or> k = 95)"

definition is_blank :: "char \<Rightarrow> bool" where
  "is_blank ch = (ch = CHR '' '' \<or> ch = NL \<or> ch = CHR 0x09)"

definition two_char_ops :: "string list" where
  "two_char_ops = [''=='', ''!='', ''<='', ''>='', ''&&'', ''||'']"

definition one_char_ops :: "string list" where
  "one_char_ops = [''<'', ''>'', ''+'', ''-'', ''*'', ''/'', ''%'']"

fun lex :: "pending \<Rightarrow> string \<Rightarrow> token list option" where
  "lex p [] = Some (flush p)"
| "lex p (ch # rest) =
     (case digit_value ch of
        Some d \<Rightarrow>
          (case p of
             NoToken \<Rightarrow> lex (InNumber d) rest
           | InNumber n \<Rightarrow> lex (InNumber (10 * n + d)) rest
           | InName s \<Rightarrow> lex (InName (s @ [ch])) rest)
      | None \<Rightarrow>
          if is_letter ch then
            (case p of
               NoToken \<Rightarrow> lex (InName [ch]) rest
             | InNumber n \<Rightarrow> None
             | InName s \<Rightarrow> lex (InName (s @ [ch])) rest)
          else if is_blank ch then map_option (\<lambda>ts. flush p @ ts) (lex NoToken rest)
          else if ch = CHR ''('' then map_option (\<lambda>ts. flush p @ LPAR # ts) (lex NoToken rest)
          else if ch = CHR '')'' then map_option (\<lambda>ts. flush p @ RPAR # ts) (lex NoToken rest)
          else
            (case rest of
               [] \<Rightarrow> if [ch] \<in> set one_char_ops then Some (flush p @ [OP [ch]]) else None
             | ch2 # rest2 \<Rightarrow>
                 if [ch, ch2] \<in> set two_char_ops
                 then map_option (\<lambda>ts. flush p @ OP [ch, ch2] # ts) (lex NoToken rest2)
                 else if [ch] \<in> set one_char_ops
                 then map_option (\<lambda>ts. flush p @ OP [ch] # ts) (lex NoToken rest)
                 else None))"

definition tokens_of :: "string \<Rightarrow> token list option" where
  "tokens_of s = lex NoToken s"

datatype cexpr = Num int | Var string | Bin string cexpr cexpr

definition prec :: "string \<Rightarrow> nat" where
  "prec oper =
     (if oper = ''||'' then 1
      else if oper = ''&&'' then 2
      else if oper \<in> set [''=='', ''!=''] then 3
      else if oper \<in> set [''<'', ''>'', ''<='', ''>=''] then 4
      else if oper \<in> set [''+'', ''-''] then 5
      else 6)"

text \<open>Precedence climbing; the first argument bounds the depth of the recursion.\<close>

fun parse_level :: "nat \<Rightarrow> nat \<Rightarrow> token list \<Rightarrow> (cexpr \<times> token list) option"
  and parse_rest :: "nat \<Rightarrow> nat \<Rightarrow> cexpr \<Rightarrow> token list \<Rightarrow> (cexpr \<times> token list) option"
where
  "parse_level 0 lvl ts = None"
| "parse_level (Suc fuel) lvl ts =
     (if lvl > 6 then
        (case ts of
           NUM n # r \<Rightarrow> Some (Num (int n), r)
         | ID x # r \<Rightarrow> Some (Var x, r)
         | LPAR # r \<Rightarrow>
             (case parse_level fuel 1 r of
                Some (e, RPAR # r') \<Rightarrow> Some (e, r')
              | _ \<Rightarrow> None)
         | _ \<Rightarrow> None)
      else
        (case parse_level fuel (lvl + 1) ts of
           None \<Rightarrow> None
         | Some (e, r) \<Rightarrow> parse_rest fuel lvl e r))"
| "parse_rest 0 lvl e ts = None"
| "parse_rest (Suc fuel) lvl e ts =
     (case ts of
        OP oper # r \<Rightarrow>
          if prec oper = lvl then
            (case parse_level fuel (lvl + 1) r of
               None \<Rightarrow> None
             | Some (e2, r2) \<Rightarrow> parse_rest fuel lvl (Bin oper e e2) r2)
          else Some (e, ts)
      | _ \<Rightarrow> Some (e, ts))"

definition parse_condition :: "string \<Rightarrow> cexpr option" where
  "parse_condition s =
     (case tokens_of s of
        None \<Rightarrow> None
      | Some ts \<Rightarrow>
          (case parse_level (8 * length ts + 8) 1 ts of
             Some (e, []) \<Rightarrow> Some e
           | _ \<Rightarrow> None))"

definition truth :: "bool \<Rightarrow> int" where
  "truth b = (if b then 1 else 0)"

definition cpp_div :: "int \<Rightarrow> int \<Rightarrow> int" where
  "cpp_div a b = sgn a * sgn b * (\<bar>a\<bar> div \<bar>b\<bar>)"

definition binop :: "string \<Rightarrow> int \<Rightarrow> int \<Rightarrow> int option" where
  "binop oper x y =
     (if oper = ''=='' then Some (truth (x = y))
      else if oper = ''!='' then Some (truth (x \<noteq> y))
      else if oper = ''<'' then Some (truth (x < y))
      else if oper = ''>'' then Some (truth (x > y))
      else if oper = ''<='' then Some (truth (x \<le> y))
      else if oper = ''>='' then Some (truth (x \<ge> y))
      else if oper = ''+'' then Some (x + y)
      else if oper = ''-'' then Some (x - y)
      else if oper = ''*'' then Some (x * y)
      else if oper = ''/'' then (if y = 0 then None else Some (cpp_div x y))
      else if oper = ''%'' then (if y = 0 then None else Some (js_rem x y))
      else None)"

fun eval :: "(string \<Rightarrow> int option) \<Rightarrow> cexpr \<Rightarrow> int option" where
  "eval env (Num n) = Some n"
| "eval env (Var x) = env x"
| "eval env (Bin oper a b) =
     (case eval env a of
        None \<Rightarrow> None
      | Some x \<Rightarrow>
          if oper = ''&&'' \<and> x = 0 then Some 0
          else if oper = ''||'' \<and> x \<noteq> 0 then Some 1
          else
            (case eval env b of
               None \<Rightarrow> None
             | Some y \<Rightarrow>
                 if oper = ''&&'' \<or> oper = ''||'' then Some (truth (y \<noteq> 0))
                 else binop oper x y))"

definition loop_env :: "int \<Rightarrow> int \<Rightarrow> int \<Rightarrow> int \<Rightarrow> string \<Rightarrow> int option" where
  "loop_env H W r c x =
     (if x = ''r'' then Some r
      else if x = ''c'' then Some c
      else if x = ''H'' then Some H
      else if x = ''W'' then Some W
      else if x = ''true'' then Some 1
      else if x = ''false'' then Some 0
      else None)"

text \<open>Whether a condition text holds at cell \<open>(r, c)\<close> of an \<open>H\<close> by \<open>W\<close> loop nest.\<close>

definition condition_holds :: "string \<Rightarrow> int \<Rightarrow> int \<Rightarrow> int \<Rightarrow> int \<Rightarrow> bool option" where
  "condition_holds s H W r c =
     (case parse_condition s of
        None \<Rightarrow> None
      | Some e \<Rightarrow> map_option (\<lambda>v. v \<noteq> 0) (eval (loop_env H W r c) e))"

text \<open>The \<open>if\<close>/\<open>else if\<close> chain of \<open>generateConditions\<close> at one cell: the symbol of the
  first branch whose condition holds, a blank when none does.\<close>

fun run_chain :: "(string \<times> string) list \<Rightarrow> int \<Rightarrow> int \<Rightarrow> int \<Rightarrow> int \<Rightarrow> string option" where
  "run_chain [] H W r c = Some '' ''"
| "run_chain ((condition, symbol) # branches) H W r c =
     (case condition_holds condition H W r c of
        None \<Rightarrow> None
      | Some True \<Rightarrow> Some symbol
      | Some False \<Rightarrow> run_chain branches H W r c)"

text \<open>The loop nest of \<open>buildCode\<close>: every row prints its cells and then \<open>endl\<close>.\<close>

definition run_program ::
  "Predicate list \<Rightarrow> int \<Rightarrow> int \<Rightarrow> (string \<times> GridCoord list) list \<Rightarrow> string option" where
  "run_program preds H W cellsByChar =
     (let branches = map (\<lambda>p. (predicateToCondition cellsByChar p, Predicate.char p)) preds
      in map_option concat
           (those (map (\<lambda>r. map_option (\<lambda>out. concat out @ [NL])
                               (those (map (\<lambda>c. run_chain branches H W r c) [0 .. W - 1])))
                     [0 .. H - 1])))"

text \<open>The cells at which a predicate's condition holds, in row-major order.\<close>

definition characterized_cells :: "string \<Rightarrow> int \<Rightarrow> int \<Rightarrow> (int \<times> int) list" where
  "characterized_cells s H W =
     concat (map (\<lambda>r. concat (map (\<lambda>c. if condition_holds s H W r c = Some True
                                          then [(r, c)] else []) [0 .. W - 1]))
               [0 .. H - 1])"

section \<open>The row grouping, as the specification words it\<close>

text \<open>The distinct rows of a coordinate list, in the order in which they first appear.\<close>

fun rows_in_order :: "int list \<Rightarrow> int list" where
  "rows_in_order [] = []"
| "rows_in_order (x # xs) = x # filter (\<lambda>y. y \<noteq> x) (rows_in_order xs)"

text \<open>The columns recorded on one row, in list order.\<close>

definition columns_of_row :: "int \<Rightarrow> GridCoord list \<Rightarrow> int list" where
  "columns_of_row r cs = map GridCoord.col (filter (\<lambda>k. GridCoord.row k = r) cs)"

section \<open>Grids used as examples\<close>

text \<open>Drawing one symbol on a list of cells, one stroke, through \<open>setCell\<close>.\<close>

definition draw_cells :: "Grid \<Rightarrow> (int \<times> int) list \<Rightarrow> string \<Rightarrow> Grid" where
  "draw_cells g ps symbol = fold (\<lambda>p g'. fst (setCell g' (fst p) (snd p) (Some symbol) 0)) ps g"

text \<open>Every coordinate of an \<open>H\<close> by \<open>W\<close> grid, in row-major order.\<close>

definition all_cells :: "int \<Rightarrow> int \<Rightarrow> GridCoord list" where
  "all_cells H W =
     concat (map (\<lambda>r. map (\<lambda>c. \<lparr>GridCoord.row = r, GridCoord.col = c\<rparr>) [0 .. W - 1]) [0 .. H - 1])"

definition cell :: "int \<Rightarrow> int \<Rightarrow> GridCoord" where
  "cell r c = \<lparr>GridCoord.row = r, GridCoord.col = c\<rparr>"

section \<open>Numbers and their decimal text\<close>

lemma js_rem_nonneg: "0 \<le> a \<Longrightarrow> 0 < b \<Longrightarrow> js_rem a b = a mod b"
  by (cases "a = 0") (simp_all add: js_rem_def)

lemma floor_half: "\<lfloor>real_of_int d / 2\<rfloor> = d div 2"
  using floor_divide_of_int_eq [of d 2, where ?'a = real] by simp

lemma exact_quotient:
  assumes "0 < k" "d mod k = 0"
  shows "real_of_int v = real_of_int d / real_of_int k \<longleftrightarrow> v = d div k"
proof -
  from assms have d: "d = k * (d div k)" by (simp add: mod_eq_0_iff_dvd)
  have "real_of_int v = real_of_int d / real_of_int k
          \<longleftrightarrow> real_of_int v * real_of_int k = real_of_int d"
    using assms(1) by (simp add: field_simps)
  also have "\<dots> \<longleftrightarrow> v * k = d"
    by (metis of_int_eq_iff of_int_mult)
  also have "\<dots> \<longleftrightarrow> v = d div k"
    using d assms(1) by (metis mult.commute mult_cancel_left less_irrefl)
  finally show ?thesis .
qed

lemma quarter_iff:
  "0 < D \<Longrightarrow> (js_rem D 4 = 0 \<and> real_of_int v = real_of_int D / 4)
                \<longleftrightarrow> (D mod 4 = 0 \<and> v = D div 4)"
  using exact_quotient [of 4 D v] by (auto simp add: js_rem_nonneg)

lemma third_iff:
  "0 < D \<Longrightarrow> (js_rem D 3 = 0 \<and> real_of_int v = real_of_int D / 3)
                \<longleftrightarrow> (D mod 3 = 0 \<and> v = D div 3)"
  using exact_quotient [of 3 D v] by (auto simp add: js_rem_nonneg)

lemma digit_value_digit_char: "d < 10 \<Longrightarrow> digit_value (digit_char d) = Some d"
proof -
  assume "d < 10"
  then have "d \<in> {0, 1, 2, 3, 4, 5, 6, 7, 8, 9}" by auto
  then show ?thesis
    by (auto simp add: digit_value_def digit_char_def)
qed

lemma read_digits_append:
  "read_digits acc (xs @ ys) =
     (case read_digits acc xs of None \<Rightarrow> None | Some a \<Rightarrow> read_digits a ys)"
  by (induction xs arbitrary: acc) (simp_all split: option.splits)

lemma read_digits_nat_toString: "read_digits 0 (nat_toString n) = Some n"
proof (induction n rule: nat_toString.induct)
  case (1 n)
  show ?case
  proof (cases "n < 10")
    case True
    then show ?thesis
      by (subst nat_toString.simps) (simp add: digit_value_digit_char)
  next
    case False
    with 1 have ih: "read_digits 0 (nat_toString (n div 10)) = Some (n div 10)" by simp
    show ?thesis
      using False ih
      by (subst nat_toString.simps) (simp add: read_digits_append digit_value_digit_char)
  qed
qed

lemma nat_toString_nonempty: "nat_toString n \<noteq> []"
  by (subst nat_toString.simps) simp

lemma number_toString_decimal: "0 \<le> v \<Longrightarrow> read_decimal (number_toString v) = Some (nat v)"
  by (simp add: read_decimal_def number_toString_def nat_toString_nonempty
      read_digits_nat_toString)

section \<open>The value-to-symbol mapping\<close>

text \<open>
  C8. For a non-negative integer value, a positive dimension \<open>D\<close> and a dimension name,
  \<open>parameterizeValue\<close> tests in this order and the first clause that applies wins:
  \<open>0\<close> when the value is 0; the dimension name when it is \<open>D\<close>; \<open>D-1\<close> when it is
  \<open>D - 1\<close>; \<open>D/2\<close> when it is the integer half of \<open>D\<close>; \<open>D-2\<close> when it is \<open>D - 2\<close>;
  \<open>D/4\<close> when 4 divides \<open>D\<close> and the value is the quarter; \<open>D/3\<close> when 3 divides \<open>D\<close>
  and the value is the third; otherwise the decimal literal of the value, which reads
  back as the value.
\<close>

theorem parameterizeValue_order:
  assumes "0 \<le> v" and "0 < D"
  shows "parameterizeValue v D dimName =
     (if v = 0 then ''0''
      else if v = D then dimName
      else if v = D - 1 then dimName @ ''-1''
      else if v = D div 2 then dimName @ ''/2''
      else if v = D - 2 then dimName @ ''-2''
      else if D mod 4 = 0 \<and> v = D div 4 then dimName @ ''/4''
      else if D mod 3 = 0 \<and> v = D div 3 then dimName @ ''/3''
      else number_toString v)
    \<and> read_decimal (number_toString v) = Some (nat v)"
  unfolding parameterizeValue_def floor_half quarter_iff [OF assms(2)] third_iff [OF assms(2)]
  using assms(1) by (simp only: number_toString_decimal simp_thms)

theorem parameterizeValue_order_witness:
  "parameterizeValue 2 8 ''H'' = ''H/4'' \<and> parameterizeValue 5 12 ''W'' = ''5''
   \<and> read_decimal (number_toString 5) = Some 5"
  using parameterizeValue_order [of 2 8 "''H''"] parameterizeValue_order [of 5 12 "''W''"]
  by (simp add: number_toString_def nat_toString.simps digit_char_def)

section \<open>Grids stay rectangular\<close>

lemma grid_ok_new_Grid: "grid_ok (new_Grid n m)"
  by (simp add: grid_ok_def new_Grid_def createEmptyGrid_def list_all_iff)

lemma grid_ok_setCell: "grid_ok g \<Longrightarrow> grid_ok (fst (setCell g r c ch sid))"
proof -
  assume ok: "grid_ok g"
  have "line \<in> set ((cells g)[i := (cells g ! i)[j := x]]) \<Longrightarrow> i < length (cells g)
        \<Longrightarrow> length line = cols g" for line i j x
    using ok set_update_subset_insert [of "cells g" i "(cells g ! i)[j := x]"]
    by (auto simp add: grid_ok_def list_all_iff)
  with ok show ?thesis
    by (auto simp add: grid_ok_def setCell_def Let_def list_all_iff isValidCoord_def)
qed

lemma grid_ok_draw_cells: "grid_ok g \<Longrightarrow> grid_ok (draw_cells g ps symbol)"
  unfolding draw_cells_def
  by (induction ps arbitrary: g) (simp_all add: grid_ok_setCell)

lemma setCell_dimensions:
  "rows (fst (setCell g r c ch sid)) = rows g \<and> cols (fst (setCell g r c ch sid)) = cols g"
  by (simp add: setCell_def Let_def)

section \<open>Discovery\<close>

lemma tryHorizontalLine_no_fault:
  "0 < W \<Longrightarrow> \<exists>res. tryHorizontalLine H W cs symbol = Inr res"
  by (cases cs) (simp_all add: tryHorizontalLine_def Let_def)

lemma tryVerticalLine_no_fault:
  "0 < H \<Longrightarrow> \<exists>res. tryVerticalLine H W cs symbol = Inr res"
  by (cases cs) (simp_all add: tryVerticalLine_def Let_def)

text \<open>
  C7. Discovery is total: for every coordinate list (empty, a single cell, all cells or
  any other), every symbol and all positive dimensions, \<open>discoverPredicate\<close> returns a
  predicate and raises no fault; when none of the eight geometric testers matches, the
  predicate returned has kind \<open>coordinate_set\<close>, confidence 0, is not scalable and has
  an empty parameter list.
\<close>

theorem discoverPredicate_total:
  assumes "0 < H" and "0 < W"
  shows "(\<exists>p. discoverPredicate H W cs symbol = Inr p)
    \<and> (tryFill H W cs symbol = None \<and> tryBorder H W cs symbol = None
       \<and> tryDiagonal H W cs symbol = None \<and> tryAntiDiagonal H W cs symbol = None
       \<and> tryHorizontalLine H W cs symbol = Inr None \<and> tryVerticalLine H W cs symbol = Inr None
       \<and> tryFilledRectangle H W cs symbol = None \<and> tryCheckerboard H W cs symbol = None
       \<longrightarrow> discoverPredicate H W cs symbol =
             Inr \<lparr>type = ''coordinate_set'', Predicate.char = symbol,
                  expression = ''occupied_'' @ charCodeAt0 symbol @ ''.count({r, c})'',
                  Predicate.params = [], Predicate.isScalable = False, confidence = 0\<rparr>)"
proof -
  obtain h where h: "tryHorizontalLine H W cs symbol = Inr h"
    using tryHorizontalLine_no_fault [OF assms(2)] by blast
  obtain v where v: "tryVerticalLine H W cs symbol = Inr v"
    using tryVerticalLine_no_fault [OF assms(1)] by blast
  have total: "\<exists>p. discoverPredicate H W cs symbol = Inr p"
    by (simp add: discoverPredicate_def detectors_def h v split: option.splits)
  have fallback: "tryFill H W cs symbol = None \<Longrightarrow> tryBorder H W cs symbol = None
       \<Longrightarrow> tryDiagonal H W cs symbol = None \<Longrightarrow> tryAntiDiagonal H W cs symbol = None
       \<Longrightarrow> tryHorizontalLine H W cs symbol = Inr None
       \<Longrightarrow> tryVerticalLine H W cs symbol = Inr None
       \<Longrightarrow> tryFilledRectangle H W cs symbol = None \<Longrightarrow> tryCheckerboard H W cs symbol = None
       \<Longrightarrow> discoverPredicate H W cs symbol = Inr (fallbackCoordinateSet cs symbol)"
    by (simp add: discoverPredicate_def detectors_def)
  show ?thesis
    using total fallback by (simp add: fallbackCoordinateSet_def)
qed

theorem discoverPredicate_total_witness:
  "(0::int) < 3 \<and> discoverPredicate 3 3 [cell 0 0, cell 1 2] ''#'' =
     Inr \<lparr>type = ''coordinate_set'', Predicate.char = ''#'',
          expression = ''occupied_35.count({r, c})'',
          Predicate.params = [], Predicate.isScalable = False, confidence = 0\<rparr>"
proof -
  have none: "tryFill 3 3 [cell 0 0, cell 1 2] ''#'' = None
       \<and> tryBorder 3 3 [cell 0 0, cell 1 2] ''#'' = None
       \<and> tryDiagonal 3 3 [cell 0 0, cell 1 2] ''#'' = None
       \<and> tryAntiDiagonal 3 3 [cell 0 0, cell 1 2] ''#'' = None
       \<and> tryHorizontalLine 3 3 [cell 0 0, cell 1 2] ''#'' = Inr None
       \<and> tryVerticalLine 3 3 [cell 0 0, cell 1 2] ''#'' = Inr None
       \<and> tryFilledRectangle 3 3 [cell 0 0, cell 1 2] ''#'' = None
       \<and> tryCheckerboard 3 3 [cell 0 0, cell 1 2] ''#'' = None"
    by code_simp
  have code: "charCodeAt0 ''#'' = ''35''" by code_simp
  have pos: "(0::int) < 3" by simp
  from discoverPredicate_total [OF pos pos, of "[cell 0 0, cell 1 2]" "''#''"] none code
  show ?thesis by simp
qed

text \<open>
  C5, as the code has it. On a 5 by 5 grid whose only occupied cell is (2,2), the diagonal
  and the anti-diagonal testers both reject the cell list, since each requires exactly
  min(H,W) = 5 cells; discovery returns the filled-rectangle tester's predicate, of kind
  \<open>filled_rect\<close>, with expression \<open>r >= H/2 && r < H-2 && c >= W/2 && c < W-2\<close>.
  The diagonal tester does precede the anti-diagonal one where both match: the single
  cell (0,0) of a 1 by 3 grid is accepted by both and discovery returns \<open>diagonal\<close>
  with expression \<open>r == c\<close>.
\<close>

theorem center_cell_filled_rect:
  "discoverPredicate 5 5 [cell 2 2] symbol =
       Inr \<lparr>type = ''filled_rect'', Predicate.char = symbol,
            expression = ''r >= H/2 && r < H-2 && c >= W/2 && c < W-2'',
            Predicate.params = [''H'', ''W''], Predicate.isScalable = True, confidence = 1\<rparr>
   \<and> tryDiagonal 5 5 [cell 2 2] symbol = None
   \<and> tryAntiDiagonal 5 5 [cell 2 2] symbol = None
   \<and> tryDiagonal 1 3 [cell 0 0] symbol =
       Some \<lparr>type = ''diagonal'', Predicate.char = symbol, expression = ''r == c'',
            Predicate.params = [''H'', ''W''], Predicate.isScalable = True, confidence = 1\<rparr>
   \<and> tryAntiDiagonal 1 3 [cell 0 0] symbol =
       Some \<lparr>type = ''anti_diagonal'', Predicate.char = symbol,
            expression = ''r + c == H - 1 && c < H'',
            Predicate.params = [''H'', ''W''], Predicate.isScalable = True, confidence = 1\<rparr>
   \<and> discoverPredicate 1 3 [cell 0 0] symbol =
       Inr \<lparr>type = ''diagonal'', Predicate.char = symbol, expression = ''r == c'',
            Predicate.params = [''H'', ''W''], Predicate.isScalable = True, confidence = 1\<rparr>"
  by code_simp

text \<open>The grid with \<open>#\<close> on cell (2,2) alone groups to that one cell, and what discovery
  returns for it is neither of kind \<open>diagonal\<close> nor has the expression \<open>r == c\<close>.\<close>

theorem center_cell_not_diagonal:
  "getCellsByChar (draw_cells (new_Grid 5 5) [(2, 2)] ''#'') = [(''#'', [cell 2 2])]
   \<and> discoverPredicate 5 5 [cell 2 2] ''#'' =
       Inr \<lparr>type = ''filled_rect'', Predicate.char = ''#'',
            expression = ''r >= H/2 && r < H-2 && c >= W/2 && c < W-2'',
            Predicate.params = [''H'', ''W''], Predicate.isScalable = True, confidence = 1\<rparr>
   \<and> ''filled_rect'' \<noteq> ''diagonal''
   \<and> ''r >= H/2 && r < H-2 && c >= W/2 && c < W-2'' \<noteq> ''r == c''"
  by code_simp

text \<open>
  C6, as the code has it. For a 4 by 4 grid whose 16 cells all hold one symbol, discovery
  returns the fill tester's predicate, tried before the filled-rectangle tester, which
  matches too: its expression is \<open>true\<close>, it is scalable and has confidence 1. Its kind
  is the string \<open>filled_rect\<close>: \<open>PredicateType\<close> has no \<open>fill\<close> member, and the fill
  tester's result differs from the filled-rectangle tester's in the expression only.
\<close>

theorem full_grid_fill_tester_wins:
  "discoverPredicate 4 4 (all_cells 4 4) symbol =
       Inr \<lparr>type = ''filled_rect'', Predicate.char = symbol, expression = ''true'',
            Predicate.params = [''H'', ''W''], Predicate.isScalable = True, confidence = 1\<rparr>
   \<and> tryFill 4 4 (all_cells 4 4) symbol =
       Some \<lparr>type = ''filled_rect'', Predicate.char = symbol, expression = ''true'',
            Predicate.params = [''H'', ''W''], Predicate.isScalable = True, confidence = 1\<rparr>
   \<and> tryFilledRectangle 4 4 (all_cells 4 4) symbol =
       Some \<lparr>type = ''filled_rect'', Predicate.char = symbol,
            expression = ''r >= 0 && r < H && c >= 0 && c < W'',
            Predicate.params = [''H'', ''W''], Predicate.isScalable = True, confidence = 1\<rparr>"
  by code_simp

text \<open>The fully drawn 4 by 4 grid groups to all 16 cells, and the kind discovery returns
  for them is not \<open>fill\<close>.\<close>

theorem full_grid_kind_is_not_fill:
  "getCellsByChar (draw_cells (new_Grid 4 4)
      [(0, 0), (0, 1), (0, 2), (0, 3), (1, 0), (1, 1), (1, 2), (1, 3),
       (2, 0), (2, 1), (2, 2), (2, 3), (3, 0), (3, 1), (3, 2), (3, 3)] ''#'')
     = [(''#'', all_cells 4 4)]
   \<and> discoverPredicate 4 4 (all_cells 4 4) ''#'' =
       Inr \<lparr>type = ''filled_rect'', Predicate.char = ''#'', expression = ''true'',
            Predicate.params = [''H'', ''W''], Predicate.isScalable = True, confidence = 1\<rparr>
   \<and> ''filled_rect'' \<noteq> ''fill''"
  by code_simp

text \<open>
  C2, at the input where the code departs from it. On a 2 by 3 grid the checkerboard
  tester accepts the two cells (0,0) and (0,2): the count 2 is within one of
  \<open>ceil(6/2) = 3\<close> and both cells have even parity. The expression it returns,
  \<open>(r + c) % 2 == 0\<close>, holds at (0,0), (0,2) and (1,1), so the tester has matched a
  proper subset of the set its expression characterizes; no earlier tester matches, and
  discovery returns this predicate.
\<close>

theorem checkerboard_matches_proper_subset:
  "tryCheckerboard 2 3 [cell 0 0, cell 0 2] ''#'' =
     Some \<lparr>type = ''checkerboard'', Predicate.char = ''#'', expression = ''(r + c) % 2 == 0'',
           Predicate.params = [''H'', ''W''], Predicate.isScalable = True, confidence = 1\<rparr>
   \<and> characterized_cells ''(r + c) % 2 == 0'' 2 3 = [(0, 0), (0, 2), (1, 1)]
   \<and> discoverPredicate 2 3 [cell 0 0, cell 0 2] ''#'' =
     Inr \<lparr>type = ''checkerboard'', Predicate.char = ''#'', expression = ''(r + c) % 2 == 0'',
           Predicate.params = [''H'', ''W''], Predicate.isScalable = True, confidence = 1\<rparr>"
  by code_simp

section \<open>Synthesis\<close>

text \<open>
  C3, as the code has it. \<open>GeneratedCode.isScalable\<close> is true exactly when no predicate
  has kind \<open>coordinate_set\<close>, and the warning is attached exactly when one has; the
  predicates' own \<open>isScalable\<close> flags are not read. The result is the conjunction of
  those flags whenever each predicate's flag is false exactly for kind
  \<open>coordinate_set\<close>.
\<close>

theorem generate_isScalable_iff_no_coordinate_set:
  "(GeneratedCode.isScalable (generate preds H W cellsByChar)
      \<longleftrightarrow> (\<forall>p \<in> set preds. type p \<noteq> ''coordinate_set''))
   \<and> (GeneratedCode.warnings (generate preds H W cellsByChar) \<noteq> []
      \<longleftrightarrow> (\<exists>p \<in> set preds. type p = ''coordinate_set''))
   \<and> ((\<forall>p \<in> set preds. Predicate.isScalable p \<longleftrightarrow> type p \<noteq> ''coordinate_set'')
      \<longrightarrow> GeneratedCode.isScalable (generate preds H W cellsByChar)
            = list_all Predicate.isScalable preds)"
  by (auto simp add: generate_def Let_def list_ex_iff list_all_iff)

theorem generate_isScalable_witness:
  "(Predicate.isScalable (fallbackCoordinateSet [cell 0 0, cell 1 2] ''#'')
      \<longleftrightarrow> type (fallbackCoordinateSet [cell 0 0, cell 1 2] ''#'') \<noteq> ''coordinate_set'')
   \<and> GeneratedCode.isScalable
        (generate [fallbackCoordinateSet [cell 0 0, cell 1 2] ''#''] 3 3
           [(''#'', [cell 0 0, cell 1 2])]) = False
   \<and> list_all Predicate.isScalable [fallbackCoordinateSet [cell 0 0, cell 1 2] ''#''] = False"
  using generate_isScalable_iff_no_coordinate_set
    [of "[fallbackCoordinateSet [cell 0 0, cell 1 2] ''#'']" 3 3 "[(''#'', [cell 0 0, cell 1 2])]"]
  by (simp add: fallbackCoordinateSet_def)

text \<open>On a 7 by 1 grid the single cell (2,0) is a horizontal line whose row has no
  symbolic form, so its predicate is not scalable; the code generated from it is
  reported scalable all the same.\<close>

theorem generate_scalable_with_literal_line:
  "discoverPredicate 7 1 [cell 2 0] ''#'' =
       Inr \<lparr>type = ''horizontal_line'', Predicate.char = ''#'', expression = ''r == 2'',
            Predicate.params = [''W''], Predicate.isScalable = False, confidence = 0.5\<rparr>
   \<and> GeneratedCode.isScalable
        (generate [\<lparr>type = ''horizontal_line'', Predicate.char = ''#'', expression = ''r == 2'',
            Predicate.params = [''W''], Predicate.isScalable = False, confidence = 0.5\<rparr>]
           7 1 [(''#'', [cell 2 0])]) = True
   \<and> list_all Predicate.isScalable
        [\<lparr>type = ''horizontal_line'', Predicate.char = ''#'', expression = ''r == 2'',
            Predicate.params = [''W''], Predicate.isScalable = False, confidence = 0.5\<rparr>] = False"
  by code_simp

subsection \<open>The condition of a coordinate set\<close>

lemma rows_in_order_snoc:
  "rows_in_order (xs @ [x]) = (if x \<in> set xs then rows_in_order xs else rows_in_order xs @ [x])"
  by (induction xs) auto

lemma set_rows_in_order: "set (rows_in_order xs) = set xs"
  by (induction xs) auto

lemma distinct_rows_in_order: "distinct (rows_in_order xs)"
  by (induction xs) (auto simp add: set_rows_in_order)

lemma length_rows_in_order: "length (rows_in_order xs) = card (set xs)"
  using distinct_card [OF distinct_rows_in_order, of xs] by (simp add: set_rows_in_order)

lemma Map_push_tabulated:
  "distinct rs \<Longrightarrow>
   Map_push k v (map (\<lambda>r. (r, f r)) rs) =
     (if k \<in> set rs then map (\<lambda>r. (r, if r = k then f r @ [v] else f r)) rs
      else map (\<lambda>r. (r, f r)) rs @ [(k, [v])])"
  by (induction rs) auto

lemma columns_of_row_snoc:
  "columns_of_row r (cs @ [k]) =
     columns_of_row r cs @ (if GridCoord.row k = r then [GridCoord.col k] else [])"
  by (simp add: columns_of_row_def)

lemma columns_of_row_absent:
  "r \<notin> GridCoord.row ` set cs \<Longrightarrow> columns_of_row r cs = []"
  by (auto simp add: columns_of_row_def filter_empty_conv)

lemma byRow_of_snoc:
  "byRow_of (cs @ [k]) = Map_push (GridCoord.row k) (GridCoord.col k) (byRow_of cs)"
  by (simp add: byRow_of_def)

lemma byRow_of_grouping:
  "byRow_of cs = map (\<lambda>r. (r, columns_of_row r cs)) (rows_in_order (map GridCoord.row cs))"
proof (induction cs rule: rev_induct)
  case Nil
  show ?case by (simp add: byRow_of_def)
next
  case (snoc k cs)
  show ?case
  proof (cases "GridCoord.row k \<in> GridCoord.row ` set cs")
    case True
    then show ?thesis
      by (simp add: byRow_of_snoc snoc.IH Map_push_tabulated distinct_rows_in_order
          set_rows_in_order rows_in_order_snoc columns_of_row_snoc)
  next
    case False
    then have "columns_of_row (GridCoord.row k) cs = []"
      by (rule columns_of_row_absent)
    with False show ?thesis
      by (auto simp add: byRow_of_snoc snoc.IH Map_push_tabulated distinct_rows_in_order
          set_rows_in_order rows_in_order_snoc columns_of_row_snoc)
  qed
qed


lemma digit_char_not_NL: "d < 10 \<Longrightarrow> digit_char d \<noteq> NL"
proof -
  assume "d < 10"
  then have "d \<in> {0, 1, 2, 3, 4, 5, 6, 7, 8, 9}" by auto
  then show ?thesis
    by (auto simp add: digit_char_def)
qed

lemma nat_toString_no_NL: "NL \<notin> set (nat_toString n)"
proof (induction n rule: nat_toString.induct)
  case (1 n)
  show ?case
  proof (cases "n < 10")
    case True
    then show ?thesis
      using digit_char_not_NL [of n] by (subst nat_toString.simps) auto
  next
    case False
    with 1 have "NL \<notin> set (nat_toString (n div 10))" by simp
    moreover have "digit_char (n mod 10) \<noteq> NL" by (rule digit_char_not_NL) simp
    ultimately show ?thesis
      using False by (subst nat_toString.simps) auto
  qed
qed

lemma number_toString_no_NL: "NL \<notin> set (number_toString i)"
  by (simp add: number_toString_def nat_toString_no_NL)

lemma set_join: "set (join sep xs) \<subseteq> set sep \<union> \<Union> (set ` set xs)"
  by (induction sep xs rule: join.induct) auto

lemma join_one_line:
  "\<forall>x \<in> set xs. NL \<notin> set x \<Longrightarrow> NL \<notin> set (join '' || '' xs)"
  using set_join [of "'' || ''" xs] by auto

lemma coordinate_term_no_NL: "NL \<notin> set (coordinate_term k)"
  by (simp add: coordinate_term_def number_toString_no_NL)

lemma row_condition_no_NL: "NL \<notin> set (row_condition entry)"
proof -
  obtain r cols where e: "entry = (r, cols)" by (cases entry)
  have "NL \<notin> set (join '' || '' (map (\<lambda>c. ''c=='' @ number_toString c) cols))"
    by (rule join_one_line) (auto simp add: number_toString_no_NL)
  then show ?thesis
    by (auto simp add: e row_condition_def number_toString_no_NL split: list.splits)
qed

lemma split_from_no_NL:
  "NL \<notin> set s \<Longrightarrow> split_from cur (s @ t) = split_from (cur @ s) t"
  by (induction s arbitrary: cur) auto

lemma length_split_join_line_break:
  "xs \<noteq> [] \<Longrightarrow> \<forall>x \<in> set xs. NL \<notin> set x \<Longrightarrow>
   length (split_from cur (join line_break xs)) = length xs"
proof (induction line_break xs arbitrary: cur rule: join.induct)
  case 1
  then show ?case by simp
next
  case (2 x)
  then show ?case
    using split_from_no_NL [of x cur "[]"] by simp
next
  case (3 x y ys)
  have "split_from cur (join line_break (x # y # ys)) =
        split_from (cur @ x @ '' ||'') (NL # (''                '' @ join line_break (y # ys)))"
    using 3 split_from_no_NL [of "x @ '' ||''" cur "NL # (''                '' @ join line_break (y # ys))"]
    by (simp add: line_break_def)
  also have "\<dots> = (cur @ x @ '' ||'') # split_from ''                '' (join line_break (y # ys))"
    using split_from_no_NL [of "''                ''" "[]" "join line_break (y # ys)"] by simp
  finally show ?case
    using 3 by simp
qed

lemma lines_of_line_break_join:
  "xs \<noteq> [] \<Longrightarrow> \<forall>x \<in> set xs. NL \<notin> set x \<Longrightarrow>
   length (split_lines (join line_break xs)) = length xs"
  by (simp add: split_lines_def length_split_join_line_break)



lemma row_condition_forms:
  "row_condition (r, columns) =
     (if length columns = 1
      then ''(r=='' @ number_toString r @ '' && c=='' @ number_toString (hd columns) @ '')''
      else ''(r=='' @ number_toString r @ '' && ('' @
           join '' || '' (map (\<lambda>c. ''c=='' @ number_toString c) columns) @ ''))'')"
  by (cases columns; cases "tl columns") (simp_all add: row_condition_def)

lemma columns_of_row_present:
  "r \<in> GridCoord.row ` set cs \<Longrightarrow> columns_of_row r cs \<noteq> []"
  by (auto simp add: columns_of_row_def filter_empty_conv)

text \<open>
  C9. The condition synthesized for a \<open>coordinate_set\<close> predicate is
  \<open>generateCoordinateCondition\<close> of the cells recorded for its symbol (the text
  \<open>false\<close> when none is recorded). With more than 20 cells it is grouped by row: one
  clause per distinct row, in the order in which the rows first appear, the clauses
  joined by \<open>||\<close>, a line break and sixteen blanks, so the number of outer clauses is
  the number of distinct rows (25 cells on 3 rows give 3 clauses); a row with one column
  is rendered \<open>(r==row && c==col)\<close> and a row with several columns
  \<open>(r==row && (c==c1 || c==c2 || ...))\<close>, and every row that occurs has a column.
  With 20 cells or fewer it is the flat disjunction of the terms \<open>(r==row && c==col)\<close>,
  joined by \<open>||\<close> between blanks on one line when there are at most 5 terms, and
  by \<open>||\<close>, a line break and sixteen blanks, one term per line, when there are more.
  The disjunction of no cells is the text \<open>false\<close>.
\<close>

theorem coordinate_condition_rendering:
  "(type p = ''coordinate_set'' \<and> Map_get cellsByChar (Predicate.char p) = Some cs \<longrightarrow>
      predicateToCondition cellsByChar p = generateCoordinateCondition cs)
   \<and> (type p = ''coordinate_set'' \<and> Map_get cellsByChar (Predicate.char p) = None \<longrightarrow>
      predicateToCondition cellsByChar p = ''false'')
   \<and> generateCoordinateCondition [] = ''false''
   \<and> (20 < length cs \<longrightarrow>
      generateCoordinateCondition cs =
        join ('' ||'' @ [NL] @ ''                '')
          (map (\<lambda>r. if length (columns_of_row r cs) = 1
                     then ''(r=='' @ number_toString r @ '' && c=='' @
                          number_toString (hd (columns_of_row r cs)) @ '')''
                     else ''(r=='' @ number_toString r @ '' && ('' @
                          join '' || '' (map (\<lambda>c. ''c=='' @ number_toString c)
                                           (columns_of_row r cs)) @ ''))'')
             (rows_in_order (map GridCoord.row cs)))
      \<and> length (rows_in_order (map GridCoord.row cs)) = card (GridCoord.row ` set cs)
      \<and> length (split_lines (generateCoordinateCondition cs)) = card (GridCoord.row ` set cs))
   \<and> (r \<in> GridCoord.row ` set cs \<longrightarrow>
      r \<in> set (rows_in_order (map GridCoord.row cs)) \<and> columns_of_row r cs \<noteq> [])
   \<and> (0 < length cs \<and> length cs \<le> 5 \<longrightarrow>
      generateCoordinateCondition cs =
        join '' || ''
          (map (\<lambda>k. ''(r=='' @ number_toString (GridCoord.row k) @ '' && c=='' @
                     number_toString (GridCoord.col k) @ '')'') cs)
      \<and> NL \<notin> set (generateCoordinateCondition cs))
   \<and> (5 < length cs \<and> length cs \<le> 20 \<longrightarrow>
      generateCoordinateCondition cs =
        join ('' ||'' @ [NL] @ ''                '')
          (map (\<lambda>k. ''(r=='' @ number_toString (GridCoord.row k) @ '' && c=='' @
                     number_toString (GridCoord.col k) @ '')'') cs)
      \<and> length (split_lines (generateCoordinateCondition cs)) = length cs)"
proof -
  let ?rows = "rows_in_order (map GridCoord.row cs)"
  let ?clauses = "map (\<lambda>r. row_condition (r, columns_of_row r cs)) ?rows"
  have sep: "line_break = '' ||'' @ [NL] @ ''                ''"
    by (simp add: line_break_def)
  have terms: "map coordinate_term cs =
      map (\<lambda>k. ''(r=='' @ number_toString (GridCoord.row k) @ '' && c=='' @
                 number_toString (GridCoord.col k) @ '')'') cs"
    by (simp add: coordinate_term_def)
  have clauses: "?clauses =
      map (\<lambda>r. if length (columns_of_row r cs) = 1
                 then ''(r=='' @ number_toString r @ '' && c=='' @
                      number_toString (hd (columns_of_row r cs)) @ '')''
                 else ''(r=='' @ number_toString r @ '' && ('' @
                      join '' || '' (map (\<lambda>c. ''c=='' @ number_toString c)
                                       (columns_of_row r cs)) @ ''))'') ?rows"
    by (simp only: row_condition_forms)
  have grouped: "20 < length cs \<Longrightarrow> generateCoordinateCondition cs = join line_break ?clauses"
    by (auto simp add: generateCoordinateCondition_def generateGroupedCondition_def
        byRow_of_grouping comp_def)
  have count: "length ?rows = card (GridCoord.row ` set cs)"
    by (simp add: length_rows_in_order)
  have nonempty: "20 < length cs \<Longrightarrow> ?clauses \<noteq> []"
    using count by (cases cs) auto
  have lines: "20 < length cs \<Longrightarrow>
      length (split_lines (generateCoordinateCondition cs)) = card (GridCoord.row ` set cs)"
  proof -
    assume a: "20 < length cs"
    have "length (split_lines (join line_break ?clauses)) = length ?clauses"
      using nonempty [OF a] by (rule lines_of_line_break_join) (simp add: row_condition_no_NL)
    then show ?thesis
      using a count by (simp add: grouped)
  qed
  have present: "r \<in> GridCoord.row ` set cs \<Longrightarrow>
      r \<in> set ?rows \<and> columns_of_row r cs \<noteq> []"
    by (simp add: set_rows_in_order columns_of_row_present)
  have flat_short: "0 < length cs \<Longrightarrow> length cs \<le> 5 \<Longrightarrow>
      generateCoordinateCondition cs = join '' || '' (map coordinate_term cs)"
    by (simp add: generateCoordinateCondition_def)
  have one_line: "0 < length cs \<Longrightarrow> length cs \<le> 5 \<Longrightarrow>
      NL \<notin> set (generateCoordinateCondition cs)"
    using join_one_line [of "map coordinate_term cs"]
    by (simp add: flat_short coordinate_term_no_NL)
  have flat_long: "5 < length cs \<Longrightarrow> length cs \<le> 20 \<Longrightarrow>
      generateCoordinateCondition cs = join line_break (map coordinate_term cs)"
    by (auto simp add: generateCoordinateCondition_def)
  have wrapped: "5 < length cs \<Longrightarrow> length cs \<le> 20 \<Longrightarrow>
      length (split_lines (generateCoordinateCondition cs)) = length cs"
  proof -
    assume a: "5 < length cs" "length cs \<le> 20"
    then have "map coordinate_term cs \<noteq> []" by auto
    then have "length (split_lines (join line_break (map coordinate_term cs))) =
               length (map coordinate_term cs)"
      by (rule lines_of_line_break_join) (simp add: coordinate_term_no_NL)
    then show ?thesis
      using a by (simp add: flat_long)
  qed
  have cond: "type p = ''coordinate_set'' \<Longrightarrow> Map_get cellsByChar (Predicate.char p) = Some cs \<Longrightarrow>
      predicateToCondition cellsByChar p = generateCoordinateCondition cs"
    by (simp add: predicateToCondition_def)
  have empty: "generateCoordinateCondition [] = ''false''"
    by (simp add: generateCoordinateCondition_def)
  have missing: "type p = ''coordinate_set'' \<Longrightarrow> Map_get cellsByChar (Predicate.char p) = None \<Longrightarrow>
      predicateToCondition cellsByChar p = ''false''"
    by (simp add: predicateToCondition_def empty)
  show ?thesis
    using cond missing empty grouped [unfolded clauses sep] count lines present
      flat_short [unfolded terms] one_line flat_long [unfolded terms sep] wrapped
    by blast
qed


theorem coordinate_condition_rendering_witness:
  "getCellsByChar (draw_cells (new_Grid 8 10)
        (map (Pair 3) [0..9] @ map (Pair 0) [0..9] @ map (Pair 7) [0..4]) ''#'')
     = [(''#'', map (cell 0) [0..9] @ map (cell 3) [0..9] @ map (cell 7) [0..4])]
   \<and> discoverPredicate 8 10
        (map (cell 0) [0..9] @ map (cell 3) [0..9] @ map (cell 7) [0..4]) ''#''
     = Inr \<lparr>type = ''coordinate_set'', Predicate.char = ''#'',
            expression = ''occupied_35.count({r, c})'',
            Predicate.params = [], Predicate.isScalable = False, confidence = 0\<rparr>
   \<and> Map_get [(''#'', map (cell 0) [0..9] @ map (cell 3) [0..9] @ map (cell 7) [0..4])] ''#''
     = Some (map (cell 0) [0..9] @ map (cell 3) [0..9] @ map (cell 7) [0..4])
   \<and> predicateToCondition
        [(''#'', map (cell 0) [0..9] @ map (cell 3) [0..9] @ map (cell 7) [0..4])]
        \<lparr>type = ''coordinate_set'', Predicate.char = ''#'',
         expression = ''occupied_35.count({r, c})'',
         Predicate.params = [], Predicate.isScalable = False, confidence = 0\<rparr>
     = ''(r==0 && (c==0 || c==1 || c==2 || c==3 || c==4 || c==5 || c==6 || c==7 || c==8 || c==9))'' @
       '' ||'' @ [NL] @ ''                '' @
       ''(r==3 && (c==0 || c==1 || c==2 || c==3 || c==4 || c==5 || c==6 || c==7 || c==8 || c==9))'' @
       '' ||'' @ [NL] @ ''                '' @
       ''(r==7 && (c==0 || c==1 || c==2 || c==3 || c==4))''
   \<and> characterized_cells
        (''(r==0 && (c==0 || c==1 || c==2 || c==3 || c==4 || c==5 || c==6 || c==7 || c==8 || c==9))'' @
         '' ||'' @ [NL] @ ''                '' @
         ''(r==3 && (c==0 || c==1 || c==2 || c==3 || c==4 || c==5 || c==6 || c==7 || c==8 || c==9))'' @
         '' ||'' @ [NL] @ ''                '' @
         ''(r==7 && (c==0 || c==1 || c==2 || c==3 || c==4))'') 8 10
     = map (Pair 0) [0..9] @ map (Pair 3) [0..9] @ map (Pair 7) [0..4]
   \<and> Map_get [] ''#'' = (None :: GridCoord list option)
   \<and> predicateToCondition []
        \<lparr>type = ''coordinate_set'', Predicate.char = ''#'',
         expression = ''occupied_35.count({r, c})'',
         Predicate.params = [], Predicate.isScalable = False, confidence = 0\<rparr> = ''false''
   \<and> 20 < length (concat (map (\<lambda>c. [cell 3 c, cell 0 c]) [0..9]) @ map (cell 7) [0..4])
   \<and> card (GridCoord.row `
        set (concat (map (\<lambda>c. [cell 3 c, cell 0 c]) [0..9]) @ map (cell 7) [0..4])) = 3
   \<and> length (split_lines (generateCoordinateCondition
        (concat (map (\<lambda>c. [cell 3 c, cell 0 c]) [0..9]) @ map (cell 7) [0..4]))) = 3
   \<and> generateCoordinateCondition
        (concat (map (\<lambda>c. [cell 3 c, cell 0 c]) [0..9]) @ map (cell 7) [0..4])
     = ''(r==3 && (c==0 || c==1 || c==2 || c==3 || c==4 || c==5 || c==6 || c==7 || c==8 || c==9))'' @
       '' ||'' @ [NL] @ ''                '' @
       ''(r==0 && (c==0 || c==1 || c==2 || c==3 || c==4 || c==5 || c==6 || c==7 || c==8 || c==9))'' @
       '' ||'' @ [NL] @ ''                '' @
       ''(r==7 && (c==0 || c==1 || c==2 || c==3 || c==4))''
   \<and> 7 \<in> GridCoord.row `
        set (concat (map (\<lambda>c. [cell 3 c, cell 0 c]) [0..9]) @ map (cell 7) [0..4])
   \<and> columns_of_row 7 (concat (map (\<lambda>c. [cell 3 c, cell 0 c]) [0..9]) @ map (cell 7) [0..4])
        \<noteq> []
   \<and> 0 < length [cell 0 0, cell 1 2] \<and> length [cell 0 0, cell 1 2] \<le> 5
   \<and> generateCoordinateCondition [cell 0 0, cell 1 2] = ''(r==0 && c==0) || (r==1 && c==2)''
   \<and> NL \<notin> set (generateCoordinateCondition [cell 0 0, cell 1 2])
   \<and> characterized_cells ''(r==0 && c==0) || (r==1 && c==2)'' 2 3 = [(0, 0), (1, 2)]
   \<and> 5 < length (map (cell 1) [0..5]) \<and> length (map (cell 1) [0..5]) \<le> 20
   \<and> generateCoordinateCondition (map (cell 1) [0..5])
     = ''(r==1 && c==0)'' @ '' ||'' @ [NL] @ ''                '' @
       ''(r==1 && c==1)'' @ '' ||'' @ [NL] @ ''                '' @
       ''(r==1 && c==2)'' @ '' ||'' @ [NL] @ ''                '' @
       ''(r==1 && c==3)'' @ '' ||'' @ [NL] @ ''                '' @
       ''(r==1 && c==4)'' @ '' ||'' @ [NL] @ ''                '' @
       ''(r==1 && c==5)''
   \<and> length (split_lines (generateCoordinateCondition (map (cell 1) [0..5]))) = 6
   \<and> characterized_cells (generateCoordinateCondition (map (cell 1) [0..5])) 2 6
     = map (Pair 1) [0..5]"
proof -
  let ?drawn = "map (cell 0) [0..9] @ map (cell 3) [0..9] @ map (cell 7) [0..4]"
  let ?p = "\<lparr>type = ''coordinate_set'', Predicate.char = ''#'',
         expression = ''occupied_35.count({r, c})'',
         Predicate.params = [], Predicate.isScalable = False, confidence = 0\<rparr>"
  let ?many = "concat (map (\<lambda>c. [cell 3 c, cell 0 c]) [0..9]) @ map (cell 7) [0..4]"
  let ?six = "map (cell 1) [0..5]"
  have grouping: "getCellsByChar (draw_cells (new_Grid 8 10)
        (map (Pair 3) [0..9] @ map (Pair 0) [0..9] @ map (Pair 7) [0..4]) ''#'')
     = [(''#'', ?drawn)]"
    by code_simp
  have discovered: "discoverPredicate 8 10 ?drawn ''#'' = Inr ?p"
    by code_simp
  have found: "Map_get [(''#'', ?drawn)] ''#'' = Some ?drawn"
    by code_simp
  have kind: "type ?p = ''coordinate_set'' \<and>
      Map_get [(''#'', ?drawn)] (Predicate.char ?p) = Some ?drawn"
    using found by simp
  have drawn_text: "generateCoordinateCondition ?drawn =
       ''(r==0 && (c==0 || c==1 || c==2 || c==3 || c==4 || c==5 || c==6 || c==7 || c==8 || c==9))'' @
       '' ||'' @ [NL] @ ''                '' @
       ''(r==3 && (c==0 || c==1 || c==2 || c==3 || c==4 || c==5 || c==6 || c==7 || c==8 || c==9))'' @
       '' ||'' @ [NL] @ ''                '' @
       ''(r==7 && (c==0 || c==1 || c==2 || c==3 || c==4))''"
    by code_simp
  have condition: "predicateToCondition [(''#'', ?drawn)] ?p =
       ''(r==0 && (c==0 || c==1 || c==2 || c==3 || c==4 || c==5 || c==6 || c==7 || c==8 || c==9))'' @
       '' ||'' @ [NL] @ ''                '' @
       ''(r==3 && (c==0 || c==1 || c==2 || c==3 || c==4 || c==5 || c==6 || c==7 || c==8 || c==9))'' @
       '' ||'' @ [NL] @ ''                '' @
       ''(r==7 && (c==0 || c==1 || c==2 || c==3 || c==4))''"
    using coordinate_condition_rendering [of ?p "[(''#'', ?drawn)]" ?drawn, THEN conjunct1,
        THEN mp, OF kind]
    by (simp only: drawn_text)
  have holds: "characterized_cells
        (''(r==0 && (c==0 || c==1 || c==2 || c==3 || c==4 || c==5 || c==6 || c==7 || c==8 || c==9))'' @
         '' ||'' @ [NL] @ ''                '' @
         ''(r==3 && (c==0 || c==1 || c==2 || c==3 || c==4 || c==5 || c==6 || c==7 || c==8 || c==9))'' @
         '' ||'' @ [NL] @ ''                '' @
         ''(r==7 && (c==0 || c==1 || c==2 || c==3 || c==4))'') 8 10
     = map (Pair 0) [0..9] @ map (Pair 3) [0..9] @ map (Pair 7) [0..4]"
    by code_simp
  have absent: "Map_get [] ''#'' = (None :: GridCoord list option)"
    by code_simp
  have kind_absent: "type ?p = ''coordinate_set'' \<and>
      Map_get [] (Predicate.char ?p) = (None :: GridCoord list option)"
    using absent by simp
  have no_cells: "predicateToCondition [] ?p = ''false''"
    by (rule coordinate_condition_rendering [of ?p "[]", THEN conjunct2, THEN conjunct1,
        THEN mp, OF kind_absent])
  have many: "20 < length ?many" by code_simp
  have rows: "card (GridCoord.row ` set ?many) = 3" by code_simp
  have rendered: "generateCoordinateCondition ?many =
       ''(r==3 && (c==0 || c==1 || c==2 || c==3 || c==4 || c==5 || c==6 || c==7 || c==8 || c==9))'' @
       '' ||'' @ [NL] @ ''                '' @
       ''(r==0 && (c==0 || c==1 || c==2 || c==3 || c==4 || c==5 || c==6 || c==7 || c==8 || c==9))'' @
       '' ||'' @ [NL] @ ''                '' @
       ''(r==7 && (c==0 || c==1 || c==2 || c==3 || c==4))''"
    by code_simp
  have lines: "length (split_lines (generateCoordinateCondition ?many)) = 3"
    using coordinate_condition_rendering [of _ _ ?many, THEN conjunct2, THEN conjunct2,
        THEN conjunct2, THEN conjunct1, THEN mp, OF many, THEN conjunct2, THEN conjunct2]
    by (simp only: rows)
  have seventh: "7 \<in> GridCoord.row ` set ?many" by code_simp
  have columns: "columns_of_row 7 ?many \<noteq> []"
    by (rule coordinate_condition_rendering [of _ _ ?many 7, THEN conjunct2, THEN conjunct2,
        THEN conjunct2, THEN conjunct2, THEN conjunct1, THEN mp, OF seventh, THEN conjunct2])
  have two: "generateCoordinateCondition [cell 0 0, cell 1 2] = ''(r==0 && c==0) || (r==1 && c==2)''"
    by code_simp
  have few: "0 < length [cell 0 0, cell 1 2] \<and> length [cell 0 0, cell 1 2] \<le> 5"
    by simp
  have one_line: "NL \<notin> set (generateCoordinateCondition [cell 0 0, cell 1 2])"
    by (rule coordinate_condition_rendering [of _ _ "[cell 0 0, cell 1 2]", THEN conjunct2,
        THEN conjunct2, THEN conjunct2, THEN conjunct2, THEN conjunct2, THEN conjunct1,
        THEN mp, OF few, THEN conjunct2])
  have two_hold: "characterized_cells ''(r==0 && c==0) || (r==1 && c==2)'' 2 3 = [(0, 0), (1, 2)]"
    by code_simp
  have six: "length ?six = 6" by code_simp
  have some: "5 < length ?six \<and> length ?six \<le> 20"
    by (simp only: six) simp
  have six_text: "generateCoordinateCondition ?six
     = ''(r==1 && c==0)'' @ '' ||'' @ [NL] @ ''                '' @
       ''(r==1 && c==1)'' @ '' ||'' @ [NL] @ ''                '' @
       ''(r==1 && c==2)'' @ '' ||'' @ [NL] @ ''                '' @
       ''(r==1 && c==3)'' @ '' ||'' @ [NL] @ ''                '' @
       ''(r==1 && c==4)'' @ '' ||'' @ [NL] @ ''                '' @
       ''(r==1 && c==5)''"
    by code_simp
  have wrapped: "length (split_lines (generateCoordinateCondition ?six)) = 6"
    using coordinate_condition_rendering [of _ _ ?six, THEN conjunct2, THEN conjunct2,
        THEN conjunct2, THEN conjunct2, THEN conjunct2, THEN conjunct2, THEN mp, OF some,
        THEN conjunct2]
    by (simp only: six)
  have six_hold: "characterized_cells (generateCoordinateCondition ?six) 2 6 = map (Pair 1) [0..5]"
    by code_simp
  show ?thesis
    using grouping discovered found condition holds absent no_cells many rows lines rendered
      seventh columns few two one_line two_hold some six_text wrapped six_hold
    by (intro conjI) (simp_all only: simp_thms)
qed

section \<open>Verification\<close>

text \<open>
  C10. The \<open>valid\<close> flag is not equivalent to an empty list of differences. The 1 by 2
  grid with \<open>#\<close> on its first cell renders as \<open>#\<close> followed by a blank; for the
  candidate that is this very rendering, and for the candidate \<open>#\<close> with the blank
  stripped, \<open>validate\<close> returns \<open>valid = false\<close> with no differences: the candidate
  loses its trailing blank before the texts are compared, and the diff then pads the
  missing character with a blank.
\<close>

theorem validate_invalid_with_no_differences:
  "toString (draw_cells (new_Grid 1 2) [(0, 0)] ''#'') = ''# ''
   \<and> validate (draw_cells (new_Grid 1 2) [(0, 0)] ''#'') ''# ''
       = \<lparr>valid = False, differences = []\<rparr>
   \<and> validate (draw_cells (new_Grid 1 2) [(0, 0)] ''#'') ''#''
       = \<lparr>valid = False, differences = []\<rparr>
   \<and> (\<exists>g out. grid_ok g \<and> \<not> valid (validate g out) \<and> differences (validate g out) = [])"
proof -
  let ?g = "draw_cells (new_Grid 1 2) [(0, 0)] ''#''"
  have rendering: "toString ?g = ''# ''"
    by code_simp
  have same: "validate ?g ''# '' = \<lparr>valid = False, differences = []\<rparr>"
    by code_simp
  have stripped: "validate ?g ''#'' = \<lparr>valid = False, differences = []\<rparr>"
    by code_simp
  have ok: "grid_ok ?g"
    by code_simp
  have "\<not> valid (validate ?g ''# '') \<and> differences (validate ?g ''# '') = []"
    unfolding same by simp
  with ok have "\<exists>g out. grid_ok g \<and> \<not> valid (validate g out) \<and> differences (validate g out) = []"
    by blast
  with rendering same stripped show ?thesis
    by (intro conjI)
qed

text \<open>
  C4, at the inputs where the code departs from it. \<open>validate\<close> strips all trailing
  white space of the candidate, not one trailing newline. For the 1 by 1 grid holding
  \<open>#\<close>, the candidate \<open>#\<close> followed by a tab, a blank and two newlines is accepted as
  valid. For the 1 by 2 grid rendering as \<open>#\<close> and a blank, the candidate that is this
  rendering followed by one newline is rejected.
\<close>

theorem validate_trims_all_trailing_whitespace:
  "validate (draw_cells (new_Grid 1 1) [(0, 0)] ''#'') (''#'' @ [CHR 0x09, CHR '' '', NL, NL])
     = \<lparr>valid = True, differences = []\<rparr>
   \<and> toString (draw_cells (new_Grid 1 2) [(0, 0)] ''#'') = ''# ''
   \<and> valid (validate (draw_cells (new_Grid 1 2) [(0, 0)] ''#'') (''# '' @ [NL])) = False"
  by code_simp

section \<open>Round trip\<close>

text \<open>
  C1, at the input where the code departs from it. On the 2 by 3 grid with \<open>#\<close> on
  cells (0,0) and (0,2), analysis yields the single predicate \<open>checkerboard\<close> with
  expression \<open>(r + c) % 2 == 0\<close>. Running the emitted loops over that chain prints
  \<open>#\<close> at (1,1) as well, so the output is not the grid's rendering, and \<open>validate\<close>
  reports it invalid with the one difference at row 1, column 1. On the 1 by 2 grid with
  \<open>#\<close> on its first cell the chain is right and the output is the rendering followed
  by a newline, yet \<open>validate\<close> reports it invalid, the trailing blank having been
  stripped with the newline.
\<close>

theorem round_trip_fails_on_partial_checkerboard:
  "analyze (draw_cells (new_Grid 2 3) [(0, 0), (0, 2)] ''#'') =
     Inr \<lparr>predicates =
            [\<lparr>type = ''checkerboard'', Predicate.char = ''#'', expression = ''(r + c) % 2 == 0'',
              Predicate.params = [''H'', ''W''], Predicate.isScalable = True, confidence = 1\<rparr>],
          AnalysisResult.warnings = [], isFullyParametric = True\<rparr>
   \<and> run_program
        [\<lparr>type = ''checkerboard'', Predicate.char = ''#'', expression = ''(r + c) % 2 == 0'',
          Predicate.params = [''H'', ''W''], Predicate.isScalable = True, confidence = 1\<rparr>]
        2 3 (getCellsByChar (draw_cells (new_Grid 2 3) [(0, 0), (0, 2)] ''#''))
      = Some (''# #'' @ [NL] @ '' # '' @ [NL])
   \<and> toString (draw_cells (new_Grid 2 3) [(0, 0), (0, 2)] ''#'') = ''# #'' @ [NL] @ ''   ''
   \<and> validate (draw_cells (new_Grid 2 3) [(0, 0), (0, 2)] ''#'') (''# #'' @ [NL] @ '' # '' @ [NL])
      = \<lparr>valid = False,
         differences = [\<lparr>Difference.row = 1, Difference.col = 1, expected = ''(space)'',
                         actual = [CHR 0x27, CHR ''#'', CHR 0x27]\<rparr>]\<rparr>
   \<and> analyze (draw_cells (new_Grid 1 2) [(0, 0)] ''#'') =
     Inr \<lparr>predicates =
            [\<lparr>type = ''diagonal'', Predicate.char = ''#'', expression = ''r == c'',
              Predicate.params = [''H'', ''W''], Predicate.isScalable = True, confidence = 1\<rparr>],
          AnalysisResult.warnings = [], isFullyParametric = True\<rparr>
   \<and> run_program
        [\<lparr>type = ''diagonal'', Predicate.char = ''#'', expression = ''r == c'',
          Predicate.params = [''H'', ''W''], Predicate.isScalable = True, confidence = 1\<rparr>]
        1 2 (getCellsByChar (draw_cells (new_Grid 1 2) [(0, 0)] ''#''))
      = Some (''# '' @ [NL])
   \<and> toString (draw_cells (new_Grid 1 2) [(0, 0)] ''#'') = ''# ''
   \<and> validate (draw_cells (new_Grid 1 2) [(0, 0)] ''#'') (''# '' @ [NL])
      = \<lparr>valid = False, differences = []\<rparr>"
  by code_simp

end
